theory Spec2Isabelle
  imports Complex_Main
begin

section \<open>JavaScript values\<close>

text \<open>
  The client stores whatever \<^verbatim>\<open>response.json()\<close> returns: the TypeScript annotations
  (\<^verbatim>\<open>UserData\<close>, \<^verbatim>\<open>Product[]\<close>) are erased at run time, so the state holds plain
  JavaScript values. Numbers are modelled as rationals (the payloads of this repository
  are small integers; IEEE rounding is not modelled). An object is its list of
  properties; a lookup takes the first binding of a key.
\<close>

datatype jsval =
    JUndefined
  | JNull
  | JBool bool
  | JNum rat
  | JStr string
  | JArr "jsval list"
  | JObj "(string \<times> jsval) list"

datatype js_error = AbortError | NetworkError | SyntaxError | TypeError

text \<open>Truthiness, as tested by \<^verbatim>\<open>if (userData)\<close>.\<close>

fun truthy :: "jsval \<Rightarrow> bool" where
  "truthy JUndefined = False"
| "truthy JNull = False"
| "truthy (JBool b) = b"
| "truthy (JNum n) = (n \<noteq> 0)"
| "truthy (JStr s) = (s \<noteq> [])"
| "truthy (JArr xs) = True"
| "truthy (JObj kvs) = True"

text \<open>
  \<^verbatim>\<open>data.message\<close>: reading a property of \<^verbatim>\<open>null\<close> or \<^verbatim>\<open>undefined\<close> throws a
  TypeError; a value without that property gives \<^verbatim>\<open>undefined\<close>.
\<close>

fun get_message :: "jsval \<Rightarrow> js_error + jsval" where
  "get_message JUndefined = Inl TypeError"
| "get_message JNull = Inl TypeError"
| "get_message (JObj kvs) =
     Inr (case map_of kvs ''message'' of Some v \<Rightarrow> v | None \<Rightarrow> JUndefined)"
| "get_message v = Inr JUndefined"

text \<open>\<^verbatim>\<open>products.length\<close>: arrays and strings have a length of their own.\<close>

fun get_length :: "jsval \<Rightarrow> js_error + jsval" where
  "get_length JUndefined = Inl TypeError"
| "get_length JNull = Inl TypeError"
| "get_length (JArr xs) = Inr (JNum (of_nat (length xs)))"
| "get_length (JStr s) = Inr (JNum (of_nat (length s)))"
| "get_length (JObj kvs) =
     Inr (case map_of kvs ''length'' of Some v \<Rightarrow> v | None \<Rightarrow> JUndefined)"
| "get_length v = Inr JUndefined"

text \<open>
  \<^verbatim>\<open>v > 0\<close>: the operand is converted to a number first. \<^verbatim>\<open>undefined\<close> converts to
  NaN (every comparison with it is false), \<^verbatim>\<open>null\<close> to 0, a boolean to 0 or 1. The
  conversion of strings, arrays and objects is the runtime's \<^verbatim>\<open>ToNumber\<close>, which is
  not part of this repository: it is the parameter \<open>to_number\<close> (\<open>None\<close> for NaN).
\<close>

fun gt_zero :: "(jsval \<Rightarrow> rat option) \<Rightarrow> jsval \<Rightarrow> bool" where
  "gt_zero to_number JUndefined = False"
| "gt_zero to_number JNull = False"
| "gt_zero to_number (JBool b) = b"
| "gt_zero to_number (JNum n) = (0 < n)"
| "gt_zero to_number v = (case to_number v of None \<Rightarrow> False | Some n \<Rightarrow> 0 < n)"

text \<open>\<^verbatim>\<open>String.prototype.includes\<close>: the argument occurs somewhere in the string.\<close>

fun starts_with :: "string \<Rightarrow> string \<Rightarrow> bool" where
  "starts_with s [] = True"
| "starts_with [] (c # cs) = False"
| "starts_with (d # ds) (c # cs) = (d = c \<and> starts_with ds cs)"

fun string_includes :: "string \<Rightarrow> string \<Rightarrow> bool" where
  "string_includes [] sub = (sub = [])"
| "string_includes (d # ds) sub = (starts_with (d # ds) sub \<or> string_includes ds sub)"

section \<open>The fallback data of the client\<close>

definition FALLBACK_DATA_message :: jsval where
  "FALLBACK_DATA_message = JStr ''API not available in production. This is fallback data.''"

definition FALLBACK_DATA_user :: jsval where
  "FALLBACK_DATA_user = JObj
     [(''id'', JNum 1),
      (''name'', JStr ''John Doe''),
      (''email'', JStr ''john@example.com''),
      (''role'', JStr ''Developer''),
      (''skills'', JArr [JStr ''JavaScript'', JStr ''React'', JStr ''Node.js'', JStr ''Express'']),
      (''experience'', JNum 5),
      (''location'', JStr ''San Francisco''),
      (''department'', JStr ''Engineering''),
      (''projects'', JNum 12)]"

text \<open>One object literal of the product lists, \<^verbatim>\<open>{ id, name, price, category, inStock }\<close>.\<close>

definition product :: "rat \<Rightarrow> string \<Rightarrow> rat \<Rightarrow> string \<Rightarrow> bool \<Rightarrow> jsval" where
  "product i n p c st = JObj
     [(''id'', JNum i), (''name'', JStr n), (''price'', JNum p),
      (''category'', JStr c), (''inStock'', JBool st)]"

definition FALLBACK_DATA_products :: "jsval list" where
  "FALLBACK_DATA_products =
     [product 1 ''Laptop Pro'' 1299 ''Electronics'' True,
      product 2 ''Wireless Headphones'' 199 ''Audio'' True,
      product 3 ''Smart Watch'' 349 ''Wearables'' False,
      product 4 ''Desk Chair'' 249 ''Furniture'' True,
      product 5 ''Coffee Maker'' 89 ''Kitchen'' True,
      product 6 ''Fitness Tracker'' 129 ''Wearables'' True]"

text \<open>Reading a member of an object literal (\<^verbatim>\<open>p.inStock\<close>), \<^verbatim>\<open>undefined\<close> when absent.\<close>

fun member :: "string \<Rightarrow> jsval \<Rightarrow> jsval" where
  "member k (JObj kvs) = (case map_of kvs k of Some v \<Rightarrow> v | None \<Rightarrow> JUndefined)"
| "member k v = JUndefined"

section \<open>The Data Provider (server/index.js)\<close>

text \<open>
  The application is a chain. A request goes through the middleware registered with
  \<^verbatim>\<open>app.use\<close>, in their order (\<^verbatim>\<open>cors()\<close>, then \<^verbatim>\<open>express.json()\<close>), then to the
  first route registered with \<^verbatim>\<open>app.get\<close> that matches it, and, when no route matches,
  to what stands after the routes: in production mode the static files of \<^verbatim>\<open>dist\<close> and
  the catch-all route, otherwise the 404 of Express.

  \<^verbatim>\<open>cors\<close> and \<^verbatim>\<open>express.json\<close> are library code. They are modelled by what they do
  with a request under their default options. How \<^verbatim>\<open>express.json()\<close> reads the body
  is given with the request: it leaves the request alone (no body, or a content type
  other than JSON), or it parses the body, or it refuses the body with a status (400 for
  a body that is not valid JSON; the parser has further refusals with statuses of their
  own). Response headers are not modelled.
\<close>

datatype body_parse = NotParsed | ParsedBody jsval | ParseError nat

record http_request =
  req_method :: string
  req_path :: string
  req_query :: "(string \<times> string) list"
  req_headers :: "(string \<times> string) list"
  req_body :: body_parse

text \<open>
  What the server does for a request is the sequence of its actions: a handler sleeps
  (\<^verbatim>\<open>await simulateDelay(ms)\<close>) and sends a JSON body (\<^verbatim>\<open>res.json(...)\<close>); the
  library answers with a bare status, or with a file of \<^verbatim>\<open>dist\<close>.
\<close>

datatype server_action = Sleep nat | SendJson jsval | SendStatus nat | SendStatic






definition simulateDelay :: "nat \<Rightarrow> server_action" where
  "simulateDelay ms = Sleep ms"

definition hello_payload :: jsval where
  "hello_payload = JObj [(''message'', JStr ''Hello from Express server!'')]"


definition products_payload :: jsval where
  "products_payload = JArr
     [product 1 ''Laptop Pro'' 1299 ''Electronics'' True,
      product 2 ''Wireless Headphones'' 199 ''Audio'' True,
      product 3 ''Smart Watch'' 349 ''Wearables'' False,
      product 4 ''Desk Chair'' 249 ''Furniture'' True,
      product 5 ''Coffee Maker'' 89 ''Kitchen'' True,
      product 6 ''Fitness Tracker'' 129 ''Wearables'' True]"

text \<open>The three route handlers. None of them reads its request.\<close>

definition api_hello :: "http_request \<Rightarrow> server_action list" where
  "api_hello req = [simulateDelay 1000, SendJson hello_payload]"


definition api_products :: "http_request \<Rightarrow> server_action list" where
  "api_products req = [simulateDelay 3000, SendJson products_payload]"









section \<open>The network, as the client sees it\<close>

text \<open>
  What the network does with one request is an input of the model. The request is
  rejected after some milliseconds (a connection error), or the response headers arrive
  after some milliseconds with a status and a body, or nothing ever arrives. Reading the
  body (\<^verbatim>\<open>response.json()\<close>) gives a parsed value, fails to parse, or never ends.
\<close>

datatype body_read = Parsed jsval | Unparseable | Stalls

datatype net_behaviour = Rejects nat | Responds nat nat body_read | Hangs

record response =
  status :: nat
  body :: body_read

text \<open>
  \<^verbatim>\<open>fetchWithTimeout(url, options, timeout)\<close>: the timer aborts the request when it
  fires before \<^verbatim>\<open>fetch\<close> settles; once \<^verbatim>\<open>fetch\<close> has settled the timer is cleared.
  The first argument of the model is the behaviour of the network for this url. A
  response or rejection that arrives at the very millisecond of the timer loses to the
  timer, which was set first. The status of the response is never looked at. Every
  call of the source passes the empty options and the bound 3000, so the default bound
  of 5000 is never used.
\<close>

fun fetchWithTimeout :: "net_behaviour \<Rightarrow> nat \<Rightarrow> js_error + response" where
  "fetchWithTimeout (Rejects t) timeout =
     (if t < timeout then Inl NetworkError else Inl AbortError)"
| "fetchWithTimeout (Responds t st b) timeout =
     (if t < timeout then Inr \<lparr>status = st, body = b\<rparr> else Inl AbortError)"
| "fetchWithTimeout Hangs timeout = Inl AbortError"

text \<open>\<^verbatim>\<open>await response.json()\<close>; \<open>None\<close> when the promise never settles.\<close>

definition json :: "response \<Rightarrow> (js_error + jsval) option" where
  "json r = (case body r of
      Parsed v \<Rightarrow> Some (Inr v)
    | Unparseable \<Rightarrow> Some (Inl SyntaxError)
    | Stalls \<Rightarrow> None)"

text \<open>The two awaits in a row: \<^verbatim>\<open>await fetchWithTimeout(...)\<close>, \<^verbatim>\<open>await response.json()\<close>.\<close>

definition fetch_json :: "net_behaviour \<Rightarrow> nat \<Rightarrow> (js_error + jsval) option" where
  "fetch_json nb timeout = (case fetchWithTimeout nb timeout of
      Inl e \<Rightarrow> Some (Inl e)
    | Inr r \<Rightarrow> json r)"

section \<open>The View Controller (the App component)\<close>

datatype tab = Welcome | User | Products

record app_state =
  message :: jsval
  loading :: bool
  activeTab :: tab
  userData :: jsval
  products :: jsval
  userLoading :: bool
  productsLoading :: bool
  isApiAvailable :: bool
  isNetlify :: bool

text \<open>The initial values of the \<^verbatim>\<open>useState\<close> hooks.\<close>

definition initial_state :: app_state where
  "initial_state = \<lparr>message = JStr [], loading = True, activeTab = Welcome,
     userData = JNull, products = JArr [], userLoading = False, productsLoading = False,
     isApiAvailable = True, isNetlify = False\<rparr>"

text \<open>
  An asynchronous function runs up to its first \<^verbatim>\<open>await\<close>, and is resumed later with
  what the awaited promise settled to. What it awaits is a request: a bounded fetch of a
  url, or a timer. The state it is resumed in is the state of that later moment: each
  setter writes its own field only.
\<close>

datatype request = Fetch string nat | Delay nat

datatype awaited = TimerDone | Fetched "js_error + jsval"

subsection \<open>fetchData, the greeting probe of the mount effect\<close>

definition fetchData_try :: "app_state \<Rightarrow> js_error + jsval \<Rightarrow> js_error + app_state" where
  "fetchData_try s r = (case r of
      Inl e \<Rightarrow> Inl e
    | Inr data \<Rightarrow> (case get_message data of
        Inl e \<Rightarrow> Inl e
      | Inr m \<Rightarrow> Inr (s\<lparr>message := m, isApiAvailable := True\<rparr>)))"

definition fetchData_resume :: "app_state \<Rightarrow> js_error + jsval \<Rightarrow> js_error + app_state" where
  "fetchData_resume s r = (case fetchData_try s r of
      Inr s' \<Rightarrow> Inr (s'\<lparr>loading := False\<rparr>)
    | Inl e \<Rightarrow> Inr (s\<lparr>message := FALLBACK_DATA_message, isApiAvailable := False,
                     loading := False\<rparr>))"

subsection \<open>fetchUserData\<close>

text \<open>The part before the await: the state, and the request awaited (if any).\<close>

definition fetchUserData_begin :: "app_state \<Rightarrow> app_state \<times> request option" where
  "fetchUserData_begin s =
     (if truthy (userData s) then (s, None)
      else if \<not> isApiAvailable s then (s\<lparr>userLoading := True\<rparr>, Some (Delay 1000))
      else (s\<lparr>userLoading := True\<rparr>, Some (Fetch ''/api/user'' 3000)))"

definition fetchUserData_try :: "app_state \<Rightarrow> awaited \<Rightarrow> js_error + app_state" where
  "fetchUserData_try s a = (case a of
      TimerDone \<Rightarrow> Inr (s\<lparr>userData := FALLBACK_DATA_user\<rparr>)
    | Fetched r \<Rightarrow> (case r of
        Inl e \<Rightarrow> Inl e
      | Inr data \<Rightarrow> Inr (s\<lparr>userData := data\<rparr>)))"

definition fetchUserData_resume :: "app_state \<Rightarrow> awaited \<Rightarrow> js_error + app_state" where
  "fetchUserData_resume s a = (case fetchUserData_try s a of
      Inr s' \<Rightarrow> Inr (s'\<lparr>userLoading := False\<rparr>)
    | Inl e \<Rightarrow> Inr (s\<lparr>userData := FALLBACK_DATA_user, isApiAvailable := False,
                     userLoading := False\<rparr>))"

subsection \<open>fetchProducts\<close>

text \<open>
  The guard \<^verbatim>\<open>products.length > 0\<close> stands before the \<^verbatim>\<open>try\<close>: when it throws, the
  function rejects and no state is written.
\<close>

definition fetchProducts_begin ::
  "(jsval \<Rightarrow> rat option) \<Rightarrow> app_state \<Rightarrow> js_error + app_state \<times> request option" where
  "fetchProducts_begin to_number s = (case get_length (products s) of
      Inl e \<Rightarrow> Inl e
    | Inr n \<Rightarrow> Inr
       (if gt_zero to_number n then (s, None)
        else if \<not> isApiAvailable s then (s\<lparr>productsLoading := True\<rparr>, Some (Delay 1000))
        else (s\<lparr>productsLoading := True\<rparr>, Some (Fetch ''/api/products'' 3000))))"

definition fetchProducts_try :: "app_state \<Rightarrow> awaited \<Rightarrow> js_error + app_state" where
  "fetchProducts_try s a = (case a of
      TimerDone \<Rightarrow> Inr (s\<lparr>products := JArr FALLBACK_DATA_products\<rparr>)
    | Fetched r \<Rightarrow> (case r of
        Inl e \<Rightarrow> Inl e
      | Inr data \<Rightarrow> Inr (s\<lparr>products := data\<rparr>)))"

definition fetchProducts_resume :: "app_state \<Rightarrow> awaited \<Rightarrow> js_error + app_state" where
  "fetchProducts_resume s a = (case fetchProducts_try s a of
      Inr s' \<Rightarrow> Inr (s'\<lparr>productsLoading := False\<rparr>)
    | Inl e \<Rightarrow> Inr (s\<lparr>products := JArr FALLBACK_DATA_products, isApiAvailable := False,
                     productsLoading := False\<rparr>))"

section \<open>A session: the component, its suspended calls and the events\<close>

text \<open>
  A configuration is the state of the component, the calls suspended at an await (which
  resource, and what they await), and the record of every request made so far. The
  record is not state of the program: it is there to state what work was done.
  A call reads the state of the render its effect belongs to, which is the state at the
  moment of the call; rendering itself is not modelled.
\<close>

datatype resource = Greeting | Profile | Catalog

record config =
  app :: app_state
  pending :: "(resource \<times> request) list"
  issued :: "request list"

text \<open>
  The result of a call that ran up to its first await: a call that threw leaves the
  configuration as it is (the rejection is not handled anywhere), a call that returned
  at once writes its state, a call that awaits is suspended and its request recorded.
\<close>

definition launch ::
  "resource \<Rightarrow> js_error + app_state \<times> request option \<Rightarrow> config \<Rightarrow> config" where
  "launch res r c = (case r of
      Inl e \<Rightarrow> c
    | Inr (s', None) \<Rightarrow> c\<lparr>app := s'\<rparr>
    | Inr (s', Some req) \<Rightarrow>
        c\<lparr>app := s', pending := pending c @ [(res, req)], issued := issued c @ [req]\<rparr>)"

text \<open>The effect on \<^verbatim>\<open>[activeTab]\<close>.\<close>

definition activeTab_effect :: "(jsval \<Rightarrow> rat option) \<Rightarrow> config \<Rightarrow> config" where
  "activeTab_effect to_number c = (case activeTab (app c) of
      User \<Rightarrow> launch Profile (Inr (fetchUserData_begin (app c))) c
    | Products \<Rightarrow> launch Catalog (fetchProducts_begin to_number (app c)) c
    | Welcome \<Rightarrow> c)"

text \<open>
  The two effects at mount, in their order. The first tests the host name, and either
  assigns the fallback greeting or starts \<^verbatim>\<open>fetchData\<close>; the second is the effect on
  \<^verbatim>\<open>[activeTab]\<close>.
\<close>

definition mount :: "(jsval \<Rightarrow> rat option) \<Rightarrow> string \<Rightarrow> config" where
  "mount to_number hostname = activeTab_effect to_number
     (if string_includes hostname ''netlify.app'' \<or> string_includes hostname ''staticblitz.com''
      then \<lparr>app = initial_state\<lparr>isNetlify := True, isApiAvailable := False,
                message := FALLBACK_DATA_message, loading := False\<rparr>,
             pending = [], issued = []\<rparr>
      else \<lparr>app = initial_state,
             pending = [(Greeting, Fetch ''/api/hello'' 3000)],
             issued = [Fetch ''/api/hello'' 3000]\<rparr>)"

text \<open>
  A click on a tab button: \<^verbatim>\<open>setActiveTab(t)\<close>. Setting the tab that is active
  already does not render again, and the effect does not run.
\<close>

definition setActiveTab :: "(jsval \<Rightarrow> rat option) \<Rightarrow> config \<Rightarrow> tab \<Rightarrow> config" where
  "setActiveTab to_number c t =
     (if t = activeTab (app c) then c
      else activeTab_effect to_number (c\<lparr>app := (app c)\<lparr>activeTab := t\<rparr>\<rparr>))"

text \<open>
  A suspended call is resumed when what it awaits settles: a timer fires, or the network
  behaves in some way for a fetch. \<open>None\<close> when the settlement does not fit the request,
  or when the awaited promise never settles.
\<close>

datatype settlement = TimerFires | Network net_behaviour

fun await_result :: "request \<Rightarrow> settlement \<Rightarrow> awaited option" where
  "await_result (Delay ms) TimerFires = Some TimerDone"
| "await_result (Fetch url timeout) (Network nb) = map_option Fetched (fetch_json nb timeout)"
| "await_result (Delay ms) (Network nb) = None"
| "await_result (Fetch url timeout) TimerFires = None"

fun resume :: "resource \<Rightarrow> app_state \<Rightarrow> awaited \<Rightarrow> (js_error + app_state) option" where
  "resume Greeting s (Fetched r) = Some (fetchData_resume s r)"
| "resume Greeting s TimerDone = None"
| "resume Profile s a = Some (fetchUserData_resume s a)"
| "resume Catalog s a = Some (fetchProducts_resume s a)"

definition settle ::
  "resource \<Rightarrow> app_state \<Rightarrow> request \<Rightarrow> settlement \<Rightarrow> (js_error + app_state) option" where
  "settle res s req x = (case await_result req x of
      None \<Rightarrow> None
    | Some a \<Rightarrow> resume res s a)"

definition remove_nth :: "nat \<Rightarrow> 'a list \<Rightarrow> 'a list" where
  "remove_nth i xs = take i xs @ drop (Suc i) xs"

datatype event = Click tab | Settle nat settlement

text \<open>
  One event. \<open>Settle i x\<close> resumes the suspended call number \<open>i\<close>; it is not enabled
  (\<open>None\<close>) when there is no such call or \<open>x\<close> cannot be what it awaits. Suspended calls
  may be resumed in any order: the model does not keep a clock.
\<close>

fun step :: "(jsval \<Rightarrow> rat option) \<Rightarrow> config \<Rightarrow> event \<Rightarrow> config option" where
  "step to_number c (Click t) = Some (setActiveTab to_number c t)"
| "step to_number c (Settle i x) =
     (if i < length (pending c) then
        (case settle (fst (pending c ! i)) (app c) (snd (pending c ! i)) x of
           None \<Rightarrow> None
         | Some (Inl e) \<Rightarrow> Some (c\<lparr>pending := remove_nth i (pending c)\<rparr>)
         | Some (Inr s') \<Rightarrow> Some (c\<lparr>app := s', pending := remove_nth i (pending c)\<rparr>))
      else None)"

fun exec :: "(jsval \<Rightarrow> rat option) \<Rightarrow> config \<Rightarrow> event list \<Rightarrow> config option" where
  "exec to_number c [] = Some c"
| "exec to_number c (e # es) = (case step to_number c e of
      None \<Rightarrow> None
    | Some c' \<Rightarrow> exec to_number c' es)"

definition is_fetch :: "request \<Rightarrow> bool" where
  "is_fetch req = (case req of Fetch url timeout \<Rightarrow> True | Delay ms \<Rightarrow> False)"

section \<open>Notions used to state the properties\<close>

text \<open>No greeting probe is suspended: it has settled, or it was never started.\<close>

definition probe_settled :: "config \<Rightarrow> bool" where
  "probe_settled c = list_all (\<lambda>p. fst p \<noteq> Greeting) (pending c)"

text \<open>The loading flag of a resource: \<^verbatim>\<open>loading\<close>, \<^verbatim>\<open>userLoading\<close>, \<^verbatim>\<open>productsLoading\<close>.\<close>

fun loading_flag :: "resource \<Rightarrow> app_state \<Rightarrow> bool" where
  "loading_flag Greeting s = loading s"
| "loading_flag Profile s = userLoading s"
| "loading_flag Catalog s = productsLoading s"

definition is_hello :: "request \<Rightarrow> bool" where
  "is_hello req = (case req of Fetch url timeout \<Rightarrow> url = ''/api/hello'' | Delay ms \<Rightarrow> False)"

text \<open>
  Inputs of the examples. \<open>always_NaN\<close> is a number conversion that answers NaN for
  every value; no example below consults it, since every length read there is a number.
  The three configurations are reached by sessions: a static host after both fallback
  loads, a static host right after mount, and a local host after a click on the user tab.
\<close>

definition always_NaN :: "jsval \<Rightarrow> rat option" where
  "always_NaN v = None"

definition degraded_loaded :: config where
  "degraded_loaded =
     \<lparr>app = initial_state\<lparr>isNetlify := True, isApiAvailable := False,
              message := FALLBACK_DATA_message, loading := False,
              activeTab := Welcome, userData := FALLBACK_DATA_user,
              products := JArr FALLBACK_DATA_products\<rparr>,
      pending = [], issued = [Delay 1000, Delay 1000]\<rparr>"

definition degraded_fresh :: config where
  "degraded_fresh =
     \<lparr>app = initial_state\<lparr>isNetlify := True, isApiAvailable := False,
              message := FALLBACK_DATA_message, loading := False\<rparr>,
      pending = [], issued = []\<rparr>"

definition user_loading :: config where
  "user_loading =
     \<lparr>app = initial_state\<lparr>activeTab := User, userLoading := True\<rparr>,
      pending = [(Greeting, Fetch ''/api/hello'' 3000), (Profile, Fetch ''/api/user'' 3000)],
      issued = [Fetch ''/api/hello'' 3000, Fetch ''/api/user'' 3000]\<rparr>"

section \<open>Properties of the constant data\<close>

text \<open>
  C8: the fixed fallback catalog has exactly six items, with ids 1 to 6; the item with
  id 3 is named "Smart Watch" and is the only one whose \<^verbatim>\<open>inStock\<close> is false; every
  other item has \<^verbatim>\<open>inStock\<close> true.
\<close>

theorem fallback_catalog_stock:
  "length FALLBACK_DATA_products = 6
   \<and> map (member ''id'') FALLBACK_DATA_products = [JNum 1, JNum 2, JNum 3, JNum 4, JNum 5, JNum 6]
   \<and> map (member ''inStock'') FALLBACK_DATA_products =
       [JBool True, JBool True, JBool False, JBool True, JBool True, JBool True]
   \<and> filter (\<lambda>p. member ''inStock'' p \<noteq> JBool True) FALLBACK_DATA_products =
       [product 3 ''Smart Watch'' 349 ''Wearables'' False]"
  by (simp add: FALLBACK_DATA_products_def product_def)

section \<open>Facts about the Data Provider\<close>










section \<open>Facts about single calls\<close>

lemmas resume_defs =
  fetchData_resume_def fetchData_try_def fetchUserData_resume_def fetchUserData_try_def
  fetchProducts_resume_def fetchProducts_try_def

lemmas session_defs =
  mount_def activeTab_effect_def setActiveTab_def launch_def fetchUserData_begin_def
  fetchProducts_begin_def settle_def fetch_json_def json_def remove_nth_def initial_state_def

lemma fetch_json_fail: "fetchWithTimeout nb timeout = Inl e \<Longrightarrow> fetch_json nb timeout = Some (Inl e)"
  by (simp add: fetch_json_def)

lemma fetch_json_parsed:
  "t < timeout \<Longrightarrow> fetch_json (Responds t st (Parsed v)) timeout = Some (Inr v)"
  by (simp add: fetch_json_def json_def)

lemma late_response_is_aborted:
  "timeout \<le> t \<Longrightarrow> fetch_json (Responds t st b) timeout = Some (Inl AbortError)"
  by (simp add: fetch_json_def)

lemma get_message_member:
  "v \<noteq> JNull \<Longrightarrow> v \<noteq> JUndefined \<Longrightarrow> get_message v = Inr (member ''message'' v)"
  by (cases v) simp_all

lemma fetchUserData_resume_flag:
  "fetchUserData_resume s a = Inr s' \<Longrightarrow> \<not> isApiAvailable s \<Longrightarrow> \<not> isApiAvailable s'"
  by (auto simp: resume_defs split: awaited.splits sum.splits)

lemma fetchProducts_resume_flag:
  "fetchProducts_resume s a = Inr s' \<Longrightarrow> \<not> isApiAvailable s \<Longrightarrow> \<not> isApiAvailable s'"
  by (auto simp: resume_defs split: awaited.splits sum.splits)

lemma settle_flag:
  assumes "settle res s req x = Some (Inr s')" and "res \<noteq> Greeting" and "\<not> isApiAvailable s"
  shows "\<not> isApiAvailable s'"
proof (cases res)
  case Greeting
  with assms(2) show ?thesis by simp
next
  case Profile
  with assms(1) obtain a where "fetchUserData_resume s a = Inr s'"
    by (auto simp: settle_def split: option.splits)
  with assms(3) show ?thesis by (auto dest: fetchUserData_resume_flag)
next
  case Catalog
  with assms(1) obtain a where "fetchProducts_resume s a = Inr s'"
    by (auto simp: settle_def split: option.splits)
  with assms(3) show ?thesis by (auto dest: fetchProducts_resume_flag)
qed

text \<open>
  C1: for the greeting, the profile and the catalog alike, a fetch that fails (the
  request is rejected, or the timer aborts it: there is no other failure of the
  bounded fetch) ends with the fixed fallback value of the
  resource stored, the availability flag false and the loading flag cleared; the call
  returns a state and no error; any two failing behaviours of the network, a rejection
  and a timeout among them, end in exactly the same state.
\<close>

theorem load_failure_falls_back:
  assumes "fetchWithTimeout nb timeout = Inl e" and "fetchWithTimeout nb' timeout = Inl e'"
  shows "settle Greeting s (Fetch url timeout) (Network nb) =
           Some (Inr (s\<lparr>message := FALLBACK_DATA_message, isApiAvailable := False,
                        loading := False\<rparr>))
       \<and> settle Profile s (Fetch url timeout) (Network nb) =
           Some (Inr (s\<lparr>userData := FALLBACK_DATA_user, isApiAvailable := False,
                        userLoading := False\<rparr>))
       \<and> settle Catalog s (Fetch url timeout) (Network nb) =
           Some (Inr (s\<lparr>products := JArr FALLBACK_DATA_products, isApiAvailable := False,
                        productsLoading := False\<rparr>))
       \<and> settle res s (Fetch url timeout) (Network nb) =
           settle res s (Fetch url timeout) (Network nb')
       \<and> (e = NetworkError \<or> e = AbortError)"
proof -
  have err: "e = NetworkError \<or> e = AbortError"
    using assms(1) by (cases nb) (auto split: if_splits)
  have a: "await_result (Fetch url timeout) (Network nb) = Some (Fetched (Inl e))"
    using assms(1) by (simp add: fetch_json_fail)
  have b: "await_result (Fetch url timeout) (Network nb') = Some (Fetched (Inl e'))"
    using assms(2) by (simp add: fetch_json_fail)
  have same: "resume res s (Fetched (Inl e)) = resume res s (Fetched (Inl e'))"
    by (cases res) (simp_all add: resume_defs)
  show ?thesis
    using a b same err by (simp add: settle_def resume_defs)
qed

text \<open>A rejection after 100 ms and a request that never settles, for the profile.\<close>

theorem load_failure_falls_back_witness:
  "fetchWithTimeout (Rejects 100) 3000 = Inl NetworkError
   \<and> fetchWithTimeout Hangs 3000 = Inl AbortError
   \<and> settle Profile initial_state (Fetch ''/api/user'' 3000) (Network (Rejects 100)) =
       Some (Inr (initial_state\<lparr>userData := FALLBACK_DATA_user, isApiAvailable := False,
                    userLoading := False\<rparr>))
   \<and> settle Profile initial_state (Fetch ''/api/user'' 3000) (Network (Rejects 100)) =
       settle Profile initial_state (Fetch ''/api/user'' 3000) (Network Hangs)"
proof -
  have a: "fetchWithTimeout (Rejects 100) 3000 = Inl NetworkError" by simp
  have b: "fetchWithTimeout Hangs 3000 = Inl AbortError" by simp
  show ?thesis
    using a b load_failure_falls_back [OF a b, of initial_state "''/api/user''" Profile]
    by blast
qed

text \<open>
  C4: when the availability flag is false and the guard of the call finds no stored
  value, \<^verbatim>\<open>fetchUserData\<close> and \<^verbatim>\<open>fetchProducts\<close> make no fetch: the one request
  they await is a timer of 1000 ms, which the network cannot settle, and when it fires
  the fixed fallback value is assigned (for the catalog, the fallback list of six items)
  and the loading flag cleared. The same at the level of a session: the click records
  the request \<open>Delay 1000\<close> and nothing else.
\<close>

theorem degraded_load_uses_delay:
  "(\<not> isApiAvailable s \<and> \<not> truthy (userData s) \<longrightarrow>
      fetchUserData_begin s = (s\<lparr>userLoading := True\<rparr>, Some (Delay 1000)))
   \<and> (\<not> isApiAvailable s \<and> get_length (products s) = Inr n \<and> \<not> gt_zero tn n \<longrightarrow>
      fetchProducts_begin tn s = Inr (s\<lparr>productsLoading := True\<rparr>, Some (Delay 1000)))
   \<and> \<not> is_fetch (Delay 1000)
   \<and> settle Profile s' (Delay 1000) TimerFires =
       Some (Inr (s'\<lparr>userData := FALLBACK_DATA_user, userLoading := False\<rparr>))
   \<and> settle Catalog s' (Delay 1000) TimerFires =
       Some (Inr (s'\<lparr>products := JArr FALLBACK_DATA_products, productsLoading := False\<rparr>))
   \<and> settle Profile s' (Delay 1000) (Network nb) = None
   \<and> settle Catalog s' (Delay 1000) (Network nb) = None
   \<and> length FALLBACK_DATA_products = 6
   \<and> (\<not> isApiAvailable (app c) \<and> \<not> truthy (userData (app c)) \<and> activeTab (app c) \<noteq> User \<longrightarrow>
      step tn c (Click User) =
        Some (c\<lparr>app := (app c)\<lparr>activeTab := User, userLoading := True\<rparr>,
                pending := pending c @ [(Profile, Delay 1000)],
                issued := issued c @ [Delay 1000]\<rparr>))
   \<and> (\<not> isApiAvailable (app c) \<and> get_length (products (app c)) = Inr n \<and> \<not> gt_zero tn n
        \<and> activeTab (app c) \<noteq> Products \<longrightarrow>
      step tn c (Click Products) =
        Some (c\<lparr>app := (app c)\<lparr>activeTab := Products, productsLoading := True\<rparr>,
                pending := pending c @ [(Catalog, Delay 1000)],
                issued := issued c @ [Delay 1000]\<rparr>))"
  by (simp add: fetchUserData_begin_def fetchProducts_begin_def is_fetch_def settle_def
      resume_defs FALLBACK_DATA_products_def setActiveTab_def activeTab_effect_def launch_def)

text \<open>A static host right after mount: neither resource is stored, the flag is false.\<close>

theorem degraded_load_uses_delay_witness:
  "\<not> isApiAvailable (app degraded_fresh) \<and> \<not> truthy (userData (app degraded_fresh))
   \<and> activeTab (app degraded_fresh) \<noteq> User \<and> activeTab (app degraded_fresh) \<noteq> Products
   \<and> get_length (products (app degraded_fresh)) = Inr (JNum 0) \<and> \<not> gt_zero always_NaN (JNum 0)
   \<and> fetchUserData_begin (app degraded_fresh) =
       ((app degraded_fresh)\<lparr>userLoading := True\<rparr>, Some (Delay 1000))
   \<and> fetchProducts_begin always_NaN (app degraded_fresh) =
       Inr ((app degraded_fresh)\<lparr>productsLoading := True\<rparr>, Some (Delay 1000))
   \<and> step always_NaN degraded_fresh (Click User) =
        Some (degraded_fresh\<lparr>app := (app degraded_fresh)\<lparr>activeTab := User, userLoading := True\<rparr>,
                pending := pending degraded_fresh @ [(Profile, Delay 1000)],
                issued := issued degraded_fresh @ [Delay 1000]\<rparr>)
   \<and> step always_NaN degraded_fresh (Click Products) =
        Some (degraded_fresh\<lparr>app := (app degraded_fresh)\<lparr>activeTab := Products, productsLoading := True\<rparr>,
                pending := pending degraded_fresh @ [(Catalog, Delay 1000)],
                issued := issued degraded_fresh @ [Delay 1000]\<rparr>)"
proof -
  have a: "\<not> isApiAvailable (app degraded_fresh) \<and> \<not> truthy (userData (app degraded_fresh))"
    by (simp add: degraded_fresh_def initial_state_def)
  have b: "activeTab (app degraded_fresh) \<noteq> User \<and> activeTab (app degraded_fresh) \<noteq> Products"
    by (simp add: degraded_fresh_def initial_state_def)
  have c: "get_length (products (app degraded_fresh)) = Inr (JNum 0) \<and> \<not> gt_zero always_NaN (JNum 0)"
    by (simp add: degraded_fresh_def initial_state_def)
  from degraded_load_uses_delay [where s = "app degraded_fresh" and c = degraded_fresh
      and n = "JNum 0" and tn = always_NaN] a b c
  show ?thesis by blast
qed

text \<open>
  C6: on a host that is not a static host the mount effect starts the greeting probe,
  \<^verbatim>\<open>/api/hello\<close> bounded by 3000 ms. When the response arrives before the bound,
  whatever its status, with the body the provider sends,
  \<^verbatim>\<open>{message: "Hello from Express server!"}\<close>, the greeting is exactly that string
  and the availability flag is true; from the state of mount, and from any state the
  session is in when the probe settles.
\<close>

theorem greeting_from_provider:
  assumes "\<not> string_includes h ''netlify.app''" and "\<not> string_includes h ''staticblitz.com''"
    and "t < 3000"
  shows "mount tn h =
           \<lparr>app = initial_state, pending = [(Greeting, Fetch ''/api/hello'' 3000)],
            issued = [Fetch ''/api/hello'' 3000]\<rparr>
       \<and> api_hello req = [Sleep 1000, SendJson hello_payload]
       \<and> hello_payload = JObj [(''message'', JStr ''Hello from Express server!'')]
       \<and> exec tn (mount tn h) [Settle 0 (Network (Responds t st (Parsed hello_payload)))] =
           Some \<lparr>app = initial_state\<lparr>message := JStr ''Hello from Express server!'',
                         isApiAvailable := True, loading := False\<rparr>,
                 pending = [], issued = [Fetch ''/api/hello'' 3000]\<rparr>
       \<and> settle Greeting s (Fetch ''/api/hello'' 3000)
             (Network (Responds t st (Parsed hello_payload))) =
           Some (Inr (s\<lparr>message := JStr ''Hello from Express server!'',
                        isApiAvailable := True, loading := False\<rparr>))"
proof -
  have m: "mount tn h =
           \<lparr>app = initial_state, pending = [(Greeting, Fetch ''/api/hello'' 3000)],
            issued = [Fetch ''/api/hello'' 3000]\<rparr>"
    using assms(1,2) by (simp add: mount_def activeTab_effect_def initial_state_def)
  have f: "fetch_json (Responds t st (Parsed hello_payload)) 3000 = Some (Inr hello_payload)"
    using assms(3) by (rule fetch_json_parsed)
  have s: "settle Greeting s (Fetch ''/api/hello'' 3000)
             (Network (Responds t st (Parsed hello_payload))) =
           Some (Inr (s\<lparr>message := JStr ''Hello from Express server!'',
                        isApiAvailable := True, loading := False\<rparr>))" for s
    using f by (simp add: settle_def resume_defs hello_payload_def)
  have e: "exec tn (mount tn h) [Settle 0 (Network (Responds t st (Parsed hello_payload)))] =
           Some \<lparr>app = initial_state\<lparr>message := JStr ''Hello from Express server!'',
                         isApiAvailable := True, loading := False\<rparr>,
                 pending = [], issued = [Fetch ''/api/hello'' 3000]\<rparr>"
    by (simp add: m s remove_nth_def)
  show ?thesis
    using m s e by (simp add: api_hello_def simulateDelay_def hello_payload_def)
qed

text \<open>The host \<^verbatim>\<open>localhost\<close>, the response after 1000 ms with status 200.\<close>

theorem greeting_from_provider_witness:
  "\<not> string_includes ''localhost'' ''netlify.app''
   \<and> \<not> string_includes ''localhost'' ''staticblitz.com''
   \<and> (1000::nat) < 3000
   \<and> exec always_NaN (mount always_NaN ''localhost'')
        [Settle 0 (Network (Responds 1000 200 (Parsed hello_payload)))] =
      Some \<lparr>app = initial_state\<lparr>message := JStr ''Hello from Express server!'',
                    isApiAvailable := True, loading := False\<rparr>,
            pending = [], issued = [Fetch ''/api/hello'' 3000]\<rparr>"
proof -
  have a: "\<not> string_includes ''localhost'' ''netlify.app''" by simp
  have b: "\<not> string_includes ''localhost'' ''staticblitz.com''" by simp
  have c: "(1000::nat) < 3000" by simp
  from greeting_from_provider [OF a b c, of always_NaN _ 200] a b c show ?thesis by blast
qed

text \<open>
  C7: whenever a suspended call of a resource is resumed, by a parsed response, a
  rejection, a timeout, an unparseable body or the timer of the fallback path, it ends
  with a state (never an error) in which the loading flag of that resource is false; so
  does the static-host branch of the mount effect for the greeting. The call is resumed
  whenever the awaited promise settles.
\<close>

theorem loading_flag_cleared:
  "(settle res s req x = Some r \<longrightarrow> (\<exists>s'. r = Inr s' \<and> \<not> loading_flag res s'))
   \<and> (step tn c (Settle i x) = Some c' \<longrightarrow> \<not> loading_flag (fst (pending c ! i)) (app c'))
   \<and> (string_includes h ''netlify.app'' \<or> string_includes h ''staticblitz.com'' \<longrightarrow>
        \<not> loading_flag Greeting (app (mount tn h)))
   \<and> (fetch_json nb timeout \<noteq> None \<longrightarrow>
        settle res s (Fetch url timeout) (Network nb) \<noteq> None)
   \<and> (res \<noteq> Greeting \<longrightarrow> settle res s (Delay ms) TimerFires \<noteq> None)"
proof -
  have one: "\<exists>s'. r = Inr s' \<and> \<not> loading_flag res s'" if "settle res s req x = Some r"
    for res s req x r
  proof -
    from that obtain a where a: "resume res s a = Some r"
      by (auto simp: settle_def split: option.splits)
    show ?thesis
    proof (cases res)
      case Greeting
      with a show ?thesis
        by (cases a) (auto simp: resume_defs split: sum.splits)
    next
      case Profile
      with a show ?thesis
        by (auto simp: resume_defs split: sum.splits awaited.splits)
    next
      case Catalog
      with a show ?thesis
        by (auto simp: resume_defs split: sum.splits awaited.splits)
    qed
  qed
  have two: "\<not> loading_flag (fst (pending c ! i)) (app c')" if "step tn c (Settle i x) = Some c'"
  proof -
    from that obtain r where
      r: "settle (fst (pending c ! i)) (app c) (snd (pending c ! i)) x = Some r"
      by (auto split: if_splits option.splits)
    from one [OF r] obtain s' where s': "r = Inr s'" "\<not> loading_flag (fst (pending c ! i)) s'"
      by blast
    from that r s'(1) have "app c' = s'" by (auto split: if_splits)
    with s'(2) show ?thesis by simp
  qed
  have three: "\<not> loading_flag Greeting (app (mount tn h))"
    if "string_includes h ''netlify.app'' \<or> string_includes h ''staticblitz.com''"
    using that by (simp add: mount_def activeTab_effect_def initial_state_def)
  have four: "settle res s (Fetch url timeout) (Network nb) \<noteq> None"
    if "fetch_json nb timeout \<noteq> None"
    using that by (cases res) (auto simp: settle_def)
  have five: "settle res s (Delay ms) TimerFires \<noteq> None" if "res \<noteq> Greeting"
    using that by (cases res) (auto simp: settle_def)
  from one two three four five show ?thesis by blast
qed

text \<open>The profile call suspended at its fetch, settled by a timeout.\<close>

theorem loading_flag_cleared_witness:
  "settle Profile (app user_loading) (Fetch ''/api/user'' 3000) (Network Hangs) =
     Some (Inr (initial_state\<lparr>activeTab := User, userData := FALLBACK_DATA_user,
                  isApiAvailable := False\<rparr>))
   \<and> \<not> loading_flag Profile
         (initial_state\<lparr>activeTab := User, userData := FALLBACK_DATA_user,
                  isApiAvailable := False\<rparr>)
   \<and> loading_flag Profile (app user_loading)
   \<and> step always_NaN user_loading (Settle 1 (Network Hangs)) =
       Some \<lparr>app = initial_state\<lparr>activeTab := User, userData := FALLBACK_DATA_user,
                  isApiAvailable := False\<rparr>,
             pending = [(Greeting, Fetch ''/api/hello'' 3000)],
             issued = [Fetch ''/api/hello'' 3000, Fetch ''/api/user'' 3000]\<rparr>
   \<and> string_includes ''demo.netlify.app'' ''netlify.app''
   \<and> \<not> loading_flag Greeting (app (mount always_NaN ''demo.netlify.app''))
   \<and> fetch_json Hangs 3000 \<noteq> None
   \<and> Profile \<noteq> Greeting
   \<and> settle Profile (app user_loading) (Delay 1000) TimerFires \<noteq> None"
proof -
  let ?s' = "initial_state\<lparr>activeTab := User, userData := FALLBACK_DATA_user,
                  isApiAvailable := False\<rparr>"
  let ?c' = "\<lparr>app = ?s', pending = [(Greeting, Fetch ''/api/hello'' 3000)],
             issued = [Fetch ''/api/hello'' 3000, Fetch ''/api/user'' 3000]\<rparr>"
  have a: "settle Profile (app user_loading) (Fetch ''/api/user'' 3000) (Network Hangs) =
     Some (Inr ?s')"
    by (simp add: user_loading_def settle_def fetch_json_def resume_defs initial_state_def)
  have b: "step always_NaN user_loading (Settle 1 (Network Hangs)) = Some ?c'"
    by (simp add: user_loading_def settle_def fetch_json_def resume_defs initial_state_def
        remove_nth_def)
  have c: "string_includes ''demo.netlify.app'' ''netlify.app''" by simp
  have d: "fetch_json Hangs 3000 \<noteq> None" by (simp add: fetch_json_def)
  have e: "loading_flag Profile (app user_loading)" by (simp add: user_loading_def)
  have f: "Profile \<noteq> Greeting" by simp
  note t = loading_flag_cleared [where res = Profile and s = "app user_loading"
      and req = "Fetch ''/api/user'' 3000" and x = "Network Hangs" and r = "Inr ?s'"
      and tn = always_NaN and c = user_loading and i = 1 and c' = ?c'
      and h = "''demo.netlify.app''" and nb = Hangs and timeout = 3000 and ms = 1000]
  from t a have "\<exists>s'. Inr ?s' = (Inr s' :: js_error + app_state) \<and> \<not> loading_flag Profile s'"
    by blast
  then have g: "\<not> loading_flag Profile ?s'" by auto
  from t a b c d e f g show ?thesis by blast
qed

text \<open>
  C10, as stated, fails for the greeting: a response whose body parses to \<^verbatim>\<open>null\<close>
  takes the failure path, because reading \<^verbatim>\<open>data.message\<close> throws inside the
  \<^verbatim>\<open>try\<close>. The fallback greeting is stored and the availability flag set to false.
\<close>

theorem null_greeting_takes_failure_path:
  "exec always_NaN (mount always_NaN ''localhost'')
      [Settle 0 (Network (Responds 1000 200 (Parsed JNull)))] =
     Some \<lparr>app = initial_state\<lparr>message := FALLBACK_DATA_message, isApiAvailable := False,
                   loading := False\<rparr>,
           pending = [], issued = [Fetch ''/api/hello'' 3000]\<rparr>"
  by (simp add: session_defs resume_defs)

text \<open>
  C10, amended: the status of a response is never looked at (two responses that differ
  in their status only are treated alike). For the profile and the catalog, every
  response that arrives before the bound and whose body parses is stored as the loaded
  value, the fallback is not substituted and the availability flag is not written. For
  the greeting the same holds for every parsed body other than \<^verbatim>\<open>null\<close>: its
  \<^verbatim>\<open>message\<close> member (\<^verbatim>\<open>undefined\<close> when absent) is stored and the flag set to
  true; a body that parses to \<^verbatim>\<open>null\<close> takes the failure path, and so does, for
  each of the three resources, a body that fails to parse.
\<close>

theorem parsed_body_is_stored:
  assumes "t < timeout"
  shows "fetchWithTimeout (Responds t st b) timeout = Inr \<lparr>status = st, body = b\<rparr>
       \<and> settle res s (Fetch url timeout) (Network (Responds t st b)) =
           settle res s (Fetch url timeout) (Network (Responds t st' b))
       \<and> settle Profile s (Fetch url timeout) (Network (Responds t st (Parsed v))) =
           Some (Inr (s\<lparr>userData := v, userLoading := False\<rparr>))
       \<and> settle Catalog s (Fetch url timeout) (Network (Responds t st (Parsed v))) =
           Some (Inr (s\<lparr>products := v, productsLoading := False\<rparr>))
       \<and> (v \<noteq> JNull \<and> v \<noteq> JUndefined \<longrightarrow>
           settle Greeting s (Fetch url timeout) (Network (Responds t st (Parsed v))) =
             Some (Inr (s\<lparr>message := member ''message'' v, isApiAvailable := True,
                          loading := False\<rparr>)))
       \<and> settle Greeting s (Fetch url timeout) (Network (Responds t st (Parsed JNull))) =
           Some (Inr (s\<lparr>message := FALLBACK_DATA_message, isApiAvailable := False,
                        loading := False\<rparr>))
       \<and> settle Greeting s (Fetch url timeout) (Network (Responds t st Unparseable)) =
           Some (Inr (s\<lparr>message := FALLBACK_DATA_message, isApiAvailable := False,
                        loading := False\<rparr>))
       \<and> settle Profile s (Fetch url timeout) (Network (Responds t st Unparseable)) =
           Some (Inr (s\<lparr>userData := FALLBACK_DATA_user, isApiAvailable := False,
                        userLoading := False\<rparr>))
       \<and> settle Catalog s (Fetch url timeout) (Network (Responds t st Unparseable)) =
           Some (Inr (s\<lparr>products := JArr FALLBACK_DATA_products, isApiAvailable := False,
                        productsLoading := False\<rparr>))"
proof -
  have f: "fetch_json (Responds t st (Parsed w)) timeout = Some (Inr w)" for w
    using assms by (rule fetch_json_parsed)
  have un: "fetch_json (Responds t st Unparseable) timeout = Some (Inl SyntaxError)"
    using assms by (simp add: fetch_json_def json_def)
  have g: "fetch_json (Responds t st b) timeout = fetch_json (Responds t st' b) timeout"
    using assms by (simp add: fetch_json_def json_def)
  have "settle Greeting s (Fetch url timeout) (Network (Responds t st (Parsed v))) =
          Some (Inr (s\<lparr>message := member ''message'' v, isApiAvailable := True,
                       loading := False\<rparr>))"
    if "v \<noteq> JNull \<and> v \<noteq> JUndefined"
    using that by (simp add: settle_def f resume_defs get_message_member)
  then show ?thesis
    using assms by (simp add: settle_def f g un resume_defs)
qed

text \<open>A response with status 500 and a JSON error object as its body.\<close>

theorem parsed_body_is_stored_witness:
  "(1500::nat) < 3000
   \<and> JObj [(''error'', JStr ''Internal Server Error'')] \<noteq> JNull
   \<and> JObj [(''error'', JStr ''Internal Server Error'')] \<noteq> JUndefined
   \<and> settle Profile initial_state (Fetch ''/api/user'' 3000)
        (Network (Responds 1500 500 (Parsed (JObj [(''error'', JStr ''Internal Server Error'')])))) =
      Some (Inr (initial_state\<lparr>userData := JObj [(''error'', JStr ''Internal Server Error'')],
                   userLoading := False\<rparr>))
   \<and> settle Greeting initial_state (Fetch ''/api/user'' 3000)
        (Network (Responds 1500 500 (Parsed (JObj [(''error'', JStr ''Internal Server Error'')])))) =
      Some (Inr (initial_state\<lparr>message := JUndefined, isApiAvailable := True,
                   loading := False\<rparr>))"
proof -
  have a: "(1500::nat) < 3000" by simp
  have b: "JObj [(''error'', JStr ''Internal Server Error'')] \<noteq> JNull
     \<and> JObj [(''error'', JStr ''Internal Server Error'')] \<noteq> JUndefined" by simp
  have m: "member ''message'' (JObj [(''error'', JStr ''Internal Server Error'')]) = JUndefined"
    by simp
  from parsed_body_is_stored [OF a, where st = 500 and s = initial_state
      and url = "''/api/user''" and v = "JObj [(''error'', JStr ''Internal Server Error'')]"]
    a b m
  show ?thesis by metis
qed

text \<open>
  The bound of the catalog request equals the delay of the provider's handler: a
  response that takes the 3000 ms of the handler, or longer, is aborted.
\<close>

lemma catalog_bound_equals_provider_delay:
  "api_products req = [Sleep 3000, SendJson products_payload]
   \<and> settle Catalog s (Fetch ''/api/products'' 3000)
        (Network (Responds (3000 + d) 200 (Parsed products_payload))) =
      Some (Inr (s\<lparr>products := JArr FALLBACK_DATA_products, isApiAvailable := False,
                   productsLoading := False\<rparr>))"
  by (simp add: api_products_def simulateDelay_def settle_def late_response_is_aborted
      resume_defs)

section \<open>Facts about sessions\<close>

lemma list_all_remove_nth: "list_all P xs \<Longrightarrow> list_all P (remove_nth i xs)"
  unfolding remove_nth_def list_all_iff
  by (auto dest: in_set_takeD in_set_dropD)

lemma launch_profile_degraded:
  assumes "\<not> isApiAvailable (app c)" and "probe_settled c"
  shows "\<not> isApiAvailable (app (launch Profile (Inr (fetchUserData_begin (app c))) c))
       \<and> probe_settled (launch Profile (Inr (fetchUserData_begin (app c))) c)
       \<and> filter is_fetch (issued (launch Profile (Inr (fetchUserData_begin (app c))) c)) =
           filter is_fetch (issued c)"
  using assms by (simp add: launch_def fetchUserData_begin_def probe_settled_def is_fetch_def)

lemma launch_catalog_degraded:
  assumes "\<not> isApiAvailable (app c)" and "probe_settled c"
  shows "\<not> isApiAvailable (app (launch Catalog (fetchProducts_begin tn (app c)) c))
       \<and> probe_settled (launch Catalog (fetchProducts_begin tn (app c)) c)
       \<and> filter is_fetch (issued (launch Catalog (fetchProducts_begin tn (app c)) c)) =
           filter is_fetch (issued c)"
  using assms
  by (simp add: launch_def fetchProducts_begin_def probe_settled_def is_fetch_def
      split: sum.splits)

lemma activeTab_effect_degraded:
  assumes "\<not> isApiAvailable (app c)" and "probe_settled c"
  shows "\<not> isApiAvailable (app (activeTab_effect tn c))
       \<and> probe_settled (activeTab_effect tn c)
       \<and> filter is_fetch (issued (activeTab_effect tn c)) = filter is_fetch (issued c)"
proof (cases "activeTab (app c)")
  case Welcome
  with assms show ?thesis by (simp add: activeTab_effect_def)
next
  case User
  with launch_profile_degraded [OF assms] show ?thesis by (simp add: activeTab_effect_def)
next
  case Products
  with launch_catalog_degraded [OF assms] show ?thesis by (simp add: activeTab_effect_def)
qed

lemma setActiveTab_degraded:
  assumes "\<not> isApiAvailable (app c)" and "probe_settled c"
  shows "\<not> isApiAvailable (app (setActiveTab tn c t))
       \<and> probe_settled (setActiveTab tn c t)
       \<and> filter is_fetch (issued (setActiveTab tn c t)) = filter is_fetch (issued c)"
proof (cases "t = activeTab (app c)")
  case True
  with assms show ?thesis by (simp add: setActiveTab_def)
next
  case False
  let ?c = "c\<lparr>app := (app c)\<lparr>activeTab := t\<rparr>\<rparr>"
  have "\<not> isApiAvailable (app ?c)" and "probe_settled ?c"
    using assms by (simp_all add: probe_settled_def)
  from activeTab_effect_degraded [OF this, of tn] False show ?thesis
    by (simp add: setActiveTab_def)
qed

lemma step_degraded:
  assumes "\<not> isApiAvailable (app c)" and "probe_settled c" and "step tn c e = Some c'"
  shows "\<not> isApiAvailable (app c') \<and> probe_settled c'
       \<and> filter is_fetch (issued c') = filter is_fetch (issued c)"
proof (cases e)
  case (Click t)
  with assms(3) have "c' = setActiveTab tn c t" by simp
  with setActiveTab_degraded [OF assms(1,2)] show ?thesis by simp
next
  case (Settle i x)
  with assms(3) have i: "i < length (pending c)"
    by (simp split: if_splits)
  with assms(2) have ng: "fst (pending c ! i) \<noteq> Greeting"
    by (simp add: probe_settled_def list_all_length)
  have ps: "probe_settled (c\<lparr>pending := remove_nth i (pending c)\<rparr>)"
    using assms(2) by (simp add: probe_settled_def list_all_remove_nth)
  from assms(3) Settle i obtain r where
    r: "settle (fst (pending c ! i)) (app c) (snd (pending c ! i)) x = Some r"
    by (auto split: option.splits)
  show ?thesis
  proof (cases r)
    case (Inl err)
    with assms(3) Settle i r have "c' = c\<lparr>pending := remove_nth i (pending c)\<rparr>" by simp
    with assms(1) ps show ?thesis by (simp add: probe_settled_def)
  next
    case (Inr s')
    with assms(3) Settle i r have c': "c' = c\<lparr>app := s', pending := remove_nth i (pending c)\<rparr>"
      by simp
    from r Inr ng assms(1) have "\<not> isApiAvailable s'" by (auto dest: settle_flag)
    with c' ps show ?thesis by (simp add: probe_settled_def)
  qed
qed

lemma exec_degraded:
  "exec tn c es = Some c' \<Longrightarrow> \<not> isApiAvailable (app c) \<Longrightarrow> probe_settled c \<Longrightarrow>
   \<not> isApiAvailable (app c') \<and> probe_settled c'
   \<and> filter is_fetch (issued c') = filter is_fetch (issued c)"
proof (induction es arbitrary: c)
  case Nil
  then show ?case by simp
next
  case (Cons e es)
  from Cons.prems(1) obtain c1 where s: "step tn c e = Some c1" and ex: "exec tn c1 es = Some c'"
    by (auto split: option.splits)
  from step_degraded [OF Cons.prems(2,3) s] Cons.IH [OF ex] show ?case by simp
qed

lemma step_hello:
  assumes "step tn c e = Some c'"
  shows "filter is_hello (issued c') = filter is_hello (issued c)"
proof (cases e)
  case (Click t)
  with assms show ?thesis
    by (auto simp: setActiveTab_def activeTab_effect_def launch_def fetchUserData_begin_def
        fetchProducts_begin_def is_hello_def split: tab.splits sum.splits)
next
  case (Settle i x)
  with assms show ?thesis
    by (auto split: if_splits option.splits sum.splits)
qed

lemma exec_hello:
  "exec tn c es = Some c' \<Longrightarrow> filter is_hello (issued c') = filter is_hello (issued c)"
proof (induction es arbitrary: c)
  case Nil
  then show ?case by simp
next
  case (Cons e es)
  from Cons.prems obtain c1 where s: "step tn c e = Some c1" and ex: "exec tn c1 es = Some c'"
    by (auto split: option.splits)
  from step_hello [OF s] Cons.IH [OF ex] show ?case by simp
qed

lemma mount_hello: "length (filter is_hello (issued (mount tn h))) \<le> 1"
  by (simp add: mount_def activeTab_effect_def initial_state_def is_hello_def)

text \<open>
  A click never writes the availability flag, and the only step that takes it from false
  to true resumes a greeting probe.
\<close>

lemma setActiveTab_flag:
  "isApiAvailable (app (setActiveTab tn c t)) = isApiAvailable (app c)"
  by (simp add: setActiveTab_def activeTab_effect_def launch_def fetchUserData_begin_def
      fetchProducts_begin_def split: tab.splits sum.splits)

lemma only_probe_success_sets_true:
  assumes "step tn c e = Some c'" and "\<not> isApiAvailable (app c)" and "isApiAvailable (app c')"
  shows "\<exists>i nb. e = Settle i (Network nb) \<and> i < length (pending c)
           \<and> fst (pending c ! i) = Greeting"
proof (cases e)
  case (Click t)
  with assms(1) have "c' = setActiveTab tn c t" by simp
  with assms(2,3) show ?thesis by (simp add: setActiveTab_flag)
next
  case (Settle i x)
  with assms(1) have i: "i < length (pending c)" by (simp split: if_splits)
  from assms(1) Settle i obtain r where
    r: "settle (fst (pending c ! i)) (app c) (snd (pending c ! i)) x = Some r"
    by (auto split: option.splits)
  have g: "fst (pending c ! i) = Greeting"
  proof (rule ccontr)
    assume ng: "fst (pending c ! i) \<noteq> Greeting"
    show False
    proof (cases r)
      case (Inl err)
      with assms(1) Settle i r have "app c' = app c" by auto
      with assms(2,3) show False by simp
    next
      case (Inr s')
      with assms(1) Settle i r have "app c' = s'" by auto
      moreover from r Inr ng assms(2) have "\<not> isApiAvailable s'" by (auto dest: settle_flag)
      ultimately show False using assms(3) by simp
    qed
  qed
  have "\<exists>nb. x = Network nb"
  proof (cases x)
    case TimerFires
    with r g show ?thesis
      by (cases "snd (pending c ! i)") (simp_all add: settle_def)
  next
    case (Network nb)
    then show ?thesis by simp
  qed
  with Settle i g show ?thesis by auto
qed

text \<open>
  C3, as stated, fails: on \<^verbatim>\<open>localhost\<close> the user tab is clicked while the greeting
  probe is in flight, the profile request is rejected after 100 ms (the flag becomes
  false), and then the probe's response arrives after 1000 ms: its success path calls
  \<^verbatim>\<open>setIsApiAvailable(true)\<close> and the flag is true again.
\<close>

theorem availability_reset_by_late_probe:
  "exec always_NaN (mount always_NaN ''localhost'')
      [Click User, Settle 1 (Network (Rejects 100))] =
     Some \<lparr>app = initial_state\<lparr>activeTab := User, userData := FALLBACK_DATA_user,
                   isApiAvailable := False\<rparr>,
           pending = [(Greeting, Fetch ''/api/hello'' 3000)],
           issued = [Fetch ''/api/hello'' 3000, Fetch ''/api/user'' 3000]\<rparr>
   \<and> exec always_NaN (mount always_NaN ''localhost'')
      [Click User, Settle 1 (Network (Rejects 100)),
       Settle 0 (Network (Responds 1000 200 (Parsed hello_payload)))] =
     Some \<lparr>app = initial_state\<lparr>activeTab := User, userData := FALLBACK_DATA_user,
                   message := JStr ''Hello from Express server!'', loading := False,
                   isApiAvailable := True\<rparr>,
           pending = [],
           issued = [Fetch ''/api/hello'' 3000, Fetch ''/api/user'' 3000]\<rparr>"
  by (simp add: session_defs resume_defs hello_payload_def)

text \<open>
  C3, amended: once the flag is false and no greeting probe is suspended (the probe of
  the mount effect has settled, or a static host skipped it), no sequence of later
  events sets the flag back to true, and no probe is ever suspended again.
\<close>

theorem availability_sticky_after_probe:
  assumes "\<not> isApiAvailable (app c)" and "probe_settled c" and "exec tn c es = Some c'"
  shows "\<not> isApiAvailable (app c') \<and> probe_settled c'"
  using exec_degraded [OF assms(3,1,2)] by simp

text \<open>A static host: the user tab is clicked and the timer of the fallback path fires.\<close>

theorem availability_sticky_after_probe_witness:
  "\<not> isApiAvailable (app (mount always_NaN ''demo.netlify.app''))
   \<and> probe_settled (mount always_NaN ''demo.netlify.app'')
   \<and> exec always_NaN (mount always_NaN ''demo.netlify.app'')
        [Click User, Settle 0 TimerFires] =
      Some \<lparr>app = initial_state\<lparr>isNetlify := True, isApiAvailable := False,
                    message := FALLBACK_DATA_message, loading := False, activeTab := User,
                    userData := FALLBACK_DATA_user\<rparr>,
            pending = [], issued = [Delay 1000]\<rparr>
   \<and> \<not> isApiAvailable (app \<lparr>app = initial_state\<lparr>isNetlify := True, isApiAvailable := False,
                    message := FALLBACK_DATA_message, loading := False, activeTab := User,
                    userData := FALLBACK_DATA_user\<rparr>,
            pending = [], issued = [Delay 1000]\<rparr>)"
proof -
  let ?c = "mount always_NaN ''demo.netlify.app''"
  let ?c' = "\<lparr>app = initial_state\<lparr>isNetlify := True, isApiAvailable := False,
                    message := FALLBACK_DATA_message, loading := False, activeTab := User,
                    userData := FALLBACK_DATA_user\<rparr>,
            pending = [], issued = [Delay 1000]\<rparr>"
  have a: "\<not> isApiAvailable (app ?c)" by (simp add: session_defs)
  have b: "probe_settled ?c" by (simp add: session_defs probe_settled_def)
  have c: "exec always_NaN ?c [Click User, Settle 0 TimerFires] = Some ?c'"
    by (simp add: session_defs resume_defs)
  from availability_sticky_after_probe [OF a b c] a b c show ?thesis by blast
qed

text \<open>
  C5: when the host name contains \<^verbatim>\<open>netlify.app\<close> or \<^verbatim>\<open>staticblitz.com\<close>, the
  mount effect starts no probe: it sets \<^verbatim>\<open>isNetlify\<close>, sets the availability flag to
  false, assigns the fallback greeting and clears \<^verbatim>\<open>loading\<close>, all before it
  returns, with nothing suspended and no request made. In every execution of that
  session no fetch is ever made, and the flag stays false.
\<close>

theorem static_host_session:
  assumes "string_includes h ''netlify.app'' \<or> string_includes h ''staticblitz.com''"
  shows "mount tn h =
           \<lparr>app = initial_state\<lparr>isNetlify := True, isApiAvailable := False,
                    message := FALLBACK_DATA_message, loading := False\<rparr>,
            pending = [], issued = []\<rparr>
       \<and> (exec tn (mount tn h) es = Some c' \<longrightarrow>
            filter is_fetch (issued c') = [] \<and> \<not> isApiAvailable (app c'))"
proof -
  have m: "mount tn h =
           \<lparr>app = initial_state\<lparr>isNetlify := True, isApiAvailable := False,
                    message := FALLBACK_DATA_message, loading := False\<rparr>,
            pending = [], issued = []\<rparr>"
    using assms by (simp add: mount_def activeTab_effect_def initial_state_def)
  have a: "\<not> isApiAvailable (app (mount tn h))" and b: "probe_settled (mount tn h)"
    and i: "issued (mount tn h) = []"
    by (simp_all add: m probe_settled_def)
  show ?thesis
  proof (intro conjI impI)
    show "mount tn h =
           \<lparr>app = initial_state\<lparr>isNetlify := True, isApiAvailable := False,
                    message := FALLBACK_DATA_message, loading := False\<rparr>,
            pending = [], issued = []\<rparr>" by (rule m)
  next
    assume e: "exec tn (mount tn h) es = Some c'"
    from exec_degraded [OF e a b] i show "filter is_fetch (issued c') = []" by simp
  next
    assume e: "exec tn (mount tn h) es = Some c'"
    from exec_degraded [OF e a b] show "\<not> isApiAvailable (app c')" by simp
  qed
qed

text \<open>Both tabs are visited on a static host: two timers, no fetch.\<close>

theorem static_host_session_witness:
  "string_includes ''demo.netlify.app'' ''netlify.app''
   \<and> exec always_NaN (mount always_NaN ''demo.netlify.app'')
        [Click User, Click Products, Settle 1 TimerFires, Settle 0 TimerFires] =
      Some \<lparr>app = initial_state\<lparr>isNetlify := True, isApiAvailable := False,
                    message := FALLBACK_DATA_message, loading := False,
                    activeTab := Products, userData := FALLBACK_DATA_user,
                    products := JArr FALLBACK_DATA_products\<rparr>,
            pending = [], issued = [Delay 1000, Delay 1000]\<rparr>
   \<and> filter is_fetch [Delay 1000, Delay 1000] = []"
proof -
  let ?h = "''demo.netlify.app''"
  let ?c' = "\<lparr>app = initial_state\<lparr>isNetlify := True, isApiAvailable := False,
                    message := FALLBACK_DATA_message, loading := False,
                    activeTab := Products, userData := FALLBACK_DATA_user,
                    products := JArr FALLBACK_DATA_products\<rparr>,
            pending = [], issued = [Delay 1000, Delay 1000]\<rparr>"
  have a: "string_includes ?h ''netlify.app''" by simp
  then have a': "string_includes ?h ''netlify.app'' \<or> string_includes ?h ''staticblitz.com''" ..
  have e: "exec always_NaN (mount always_NaN ?h)
        [Click User, Click Products, Settle 1 TimerFires, Settle 0 TimerFires] = Some ?c'"
    by (simp add: session_defs resume_defs)
  from static_host_session [OF a', of always_NaN _ ?c'] e
  have "filter is_fetch (issued ?c') = []" by blast
  then have "filter is_fetch [Delay 1000, Delay 1000] = []" by simp
  with a e show ?thesis by blast
qed

text \<open>
  C2, as stated, fails: the provider answers the catalog request with the empty list.
  The load completes and stores it; the guard \<^verbatim>\<open>products.length > 0\<close> does not hold,
  and the next activation of the products tab fetches again.
\<close>

theorem empty_catalog_is_fetched_again:
  "exec always_NaN (mount always_NaN ''localhost'')
      [Click Products, Settle 1 (Network (Responds 2500 200 (Parsed (JArr []))))] =
     Some \<lparr>app = initial_state\<lparr>activeTab := Products, products := JArr []\<rparr>,
           pending = [(Greeting, Fetch ''/api/hello'' 3000)],
           issued = [Fetch ''/api/hello'' 3000, Fetch ''/api/products'' 3000]\<rparr>
   \<and> exec always_NaN (mount always_NaN ''localhost'')
      [Click Products, Settle 1 (Network (Responds 2500 200 (Parsed (JArr [])))),
       Click Welcome, Click Products] =
     Some \<lparr>app = initial_state\<lparr>activeTab := Products, products := JArr [],
                   productsLoading := True\<rparr>,
           pending = [(Greeting, Fetch ''/api/hello'' 3000),
                      (Catalog, Fetch ''/api/products'' 3000)],
           issued = [Fetch ''/api/hello'' 3000, Fetch ''/api/products'' 3000,
                     Fetch ''/api/products'' 3000]\<rparr>"
  by (simp add: session_defs resume_defs)

text \<open>
  C2, amended: the guards test the stored value, not whether a load has completed. When
  the stored profile is truthy, a call of \<^verbatim>\<open>fetchUserData\<close> returns at once: an
  activation of the user tab writes the active tab and nothing else, suspends nothing
  and makes no request. Likewise for \<^verbatim>\<open>fetchProducts\<close> when the length of the stored
  catalog is greater than 0. Both fallback values pass their guard. The greeting has no
  guard: it is requested by the mount effect only, so that a session makes at most one
  \<^verbatim>\<open>/api/hello\<close> request.
\<close>

theorem cached_load_is_noop:
  "(truthy (userData (app c)) \<longrightarrow>
      fetchUserData_begin (app c) = (app c, None)
      \<and> step tn c (Click User) = Some (c\<lparr>app := (app c)\<lparr>activeTab := User\<rparr>\<rparr>))
   \<and> (get_length (products (app c)) = Inr n \<and> gt_zero tn n \<longrightarrow>
      fetchProducts_begin tn (app c) = Inr (app c, None)
      \<and> step tn c (Click Products) = Some (c\<lparr>app := (app c)\<lparr>activeTab := Products\<rparr>\<rparr>))
   \<and> truthy FALLBACK_DATA_user
   \<and> get_length (JArr FALLBACK_DATA_products) = Inr (JNum 6) \<and> gt_zero tn (JNum 6)
   \<and> (exec tn (mount tn h) es = Some c' \<longrightarrow> length (filter is_hello (issued c')) \<le> 1)"
proof (intro conjI impI)
  assume t: "truthy (userData (app c))"
  then show "fetchUserData_begin (app c) = (app c, None)"
    by (simp add: fetchUserData_begin_def)
  show "step tn c (Click User) = Some (c\<lparr>app := (app c)\<lparr>activeTab := User\<rparr>\<rparr>)"
  proof (cases "activeTab (app c) = User")
    case True
    then have "(app c)\<lparr>activeTab := User\<rparr> = app c" by (cases "app c") simp
    with True show ?thesis by (simp add: setActiveTab_def)
  next
    case False
    with t show ?thesis
      by (simp add: setActiveTab_def activeTab_effect_def launch_def fetchUserData_begin_def)
  qed
next
  assume g: "get_length (products (app c)) = Inr n \<and> gt_zero tn n"
  then show "fetchProducts_begin tn (app c) = Inr (app c, None)"
    by (simp add: fetchProducts_begin_def)
  show "step tn c (Click Products) = Some (c\<lparr>app := (app c)\<lparr>activeTab := Products\<rparr>\<rparr>)"
  proof (cases "activeTab (app c) = Products")
    case True
    then have "(app c)\<lparr>activeTab := Products\<rparr> = app c" by (cases "app c") simp
    with True show ?thesis by (simp add: setActiveTab_def)
  next
    case False
    with g show ?thesis
      by (simp add: setActiveTab_def activeTab_effect_def launch_def fetchProducts_begin_def)
  qed
next
  show "truthy FALLBACK_DATA_user" by (simp add: FALLBACK_DATA_user_def)
  show "get_length (JArr FALLBACK_DATA_products) = Inr (JNum 6)"
    by (simp add: FALLBACK_DATA_products_def)
  show "gt_zero tn (JNum 6)" by simp
next
  assume e: "exec tn (mount tn h) es = Some c'"
  from exec_hello [OF e] mount_hello [of tn h]
  show "length (filter is_hello (issued c')) \<le> 1" by simp
qed

text \<open>A session with both fallback values stored; and a session on \<^verbatim>\<open>localhost\<close>.\<close>

theorem cached_load_is_noop_witness:
  "truthy (userData (app degraded_loaded))
   \<and> step always_NaN degraded_loaded (Click User) =
       Some (degraded_loaded\<lparr>app := (app degraded_loaded)\<lparr>activeTab := User\<rparr>\<rparr>)
   \<and> get_length (products (app degraded_loaded)) = Inr (JNum 6) \<and> gt_zero always_NaN (JNum 6)
   \<and> step always_NaN degraded_loaded (Click Products) =
       Some (degraded_loaded\<lparr>app := (app degraded_loaded)\<lparr>activeTab := Products\<rparr>\<rparr>)
   \<and> exec always_NaN (mount always_NaN ''localhost'') [Click User] =
       Some \<lparr>app = initial_state\<lparr>activeTab := User, userLoading := True\<rparr>,
             pending = [(Greeting, Fetch ''/api/hello'' 3000), (Profile, Fetch ''/api/user'' 3000)],
             issued = [Fetch ''/api/hello'' 3000, Fetch ''/api/user'' 3000]\<rparr>
   \<and> length (filter is_hello [Fetch ''/api/hello'' 3000, Fetch ''/api/user'' 3000]) \<le> 1"
proof -
  let ?c' = "\<lparr>app = initial_state\<lparr>activeTab := User, userLoading := True\<rparr>,
             pending = [(Greeting, Fetch ''/api/hello'' 3000), (Profile, Fetch ''/api/user'' 3000)],
             issued = [Fetch ''/api/hello'' 3000, Fetch ''/api/user'' 3000]\<rparr>"
  have a: "truthy (userData (app degraded_loaded))"
    by (simp add: degraded_loaded_def FALLBACK_DATA_user_def)
  have b: "get_length (products (app degraded_loaded)) = Inr (JNum 6) \<and> gt_zero always_NaN (JNum 6)"
    by (simp add: degraded_loaded_def FALLBACK_DATA_products_def)
  have e: "exec always_NaN (mount always_NaN ''localhost'') [Click User] = Some ?c'"
    by (simp add: session_defs)
  note t = cached_load_is_noop [where c = degraded_loaded and n = "JNum 6" and tn = always_NaN
      and h = "''localhost''" and es = "[Click User]" and c' = ?c']
  from t e have "length (filter is_hello (issued ?c')) \<le> 1" by blast
  then have h: "length (filter is_hello [Fetch ''/api/hello'' 3000, Fetch ''/api/user'' 3000]) \<le> 1"
    by simp
  from t a b e h show ?thesis by blast
qed

text \<open>
  A second activation before the first call has completed finds nothing stored yet, and
  makes a second request.
\<close>

lemma second_call_before_completion_fetches_again:
  "exec always_NaN (mount always_NaN ''localhost'') [Click User, Click Welcome, Click User] =
     Some \<lparr>app = initial_state\<lparr>activeTab := User, userLoading := True\<rparr>,
           pending = [(Greeting, Fetch ''/api/hello'' 3000), (Profile, Fetch ''/api/user'' 3000),
                      (Profile, Fetch ''/api/user'' 3000)],
           issued = [Fetch ''/api/hello'' 3000, Fetch ''/api/user'' 3000,
                     Fetch ''/api/user'' 3000]\<rparr>"
  by (simp add: session_defs)

end
